theory Spec2Isabelle
  imports Main
begin

section \<open>Fund subscription and cancellation: the funds service\<close>

text \<open>
  A shallow embedding of the two financial handlers of
  \<^verbatim>\<open>backend/funds-service/main.py\<close>, \<^verbatim>\<open>subscribe_to_fund\<close> and
  \<^verbatim>\<open>cancel_subscription\<close>, together with the balance report
  \<^verbatim>\<open>get_user_balance\<close>, over an explicit model of the four MongoDB collections
  they touch.

  Modelling decisions.
  \<^item> Money is \<open>int\<close>: whole pesos. The handlers move amounts between \<^verbatim>\<open>Decimal\<close> and
    \<^verbatim>\<open>float\<close>; on whole amounts below \<open>2^53\<close> (every amount the repository seeds
    is one) each of those conversions, subtractions and additions is exact.
  \<^item> A collection is the list of its documents in insertion order; \<^verbatim>\<open>find_one\<close>
    returns the first document that matches the filter.
  \<^item> \<^verbatim>\<open>HTTPException(status_code, detail)\<close> is a value; the detail strings, which
    interpolate a fund id, a fund name or a minimum amount, are the constructors of
    \<open>detail\<close> with the interpolated value as argument.
  \<^item> The handlers are coroutines: every \<^verbatim>\<open>await\<close> on the database is a point where
    another request may run. Each handler is therefore written as a read phase
    (\<open>_validate\<close>), which returns the local variables the write phase uses, and a write
    phase (\<open>_apply\<close>); the handler run without interruption is their composition on
    one database.
  \<^item> The three writes of a handler are issued as \<^verbatim>\<open>insert_one(doc)\<close>,
    \<^verbatim>\<open>update_one(filter, update)\<close>, \<^verbatim>\<open>delete_one(filter)\<close> with no
    \<^verbatim>\<open>session=\<close> argument. The driver attaches an operation to a transaction only
    through that argument, so each write takes effect on its own, at once, and the
    transaction that the handler starts and commits is empty.
  \<^item> The environment of one call (\<open>env\<close>) supplies what the call does not compute: the
    fresh \<^verbatim>\<open>uuid4\<close>, the \<^verbatim>\<open>_id\<close> the driver gives each inserted document, and the
    database call, if any, at which the driver raises (a lost connection, a timeout).
  \<^item> A document carries the fields the handlers read from it (\<^verbatim>\<open>fund_id\<close>,
    \<^verbatim>\<open>name\<close>, \<^verbatim>\<open>minimum_amount\<close>, \<^verbatim>\<open>is_active\<close>; \<^verbatim>\<open>_id\<close>, \<^verbatim>\<open>balance\<close>; and
    so on), and the identity of a caller is the \<^verbatim>\<open>user_id\<close> of its token.
  \<^item> The validator of \<^verbatim>\<open>SubscriptionRequest\<close> (\<^verbatim>\<open>amount > 0\<close>) runs before the handler
    is entered; the handler is modelled on every amount.
  \<^item> The clock readings stored as \<^verbatim>\<open>created_at\<close> and \<^verbatim>\<open>updated_at\<close> and the log
    records are left out; the rate limiter in front of the handlers is not part of them.
\<close>

subsection \<open>Documents and collections\<close>

datatype TransactionType = SUBSCRIPTION | CANCELLATION

type_synonym object_id = nat

record fund_doc =
  f_fund_id :: int
  f_name :: string
  f_minimum_amount :: int
  f_is_active :: bool

record user_doc =
  u_oid :: object_id
  u_balance :: int

record subscription_doc =
  s_oid :: object_id
  s_user_id :: string
  s_fund_id :: int
  s_amount :: int
  s_is_active :: bool

record transaction_doc =
  t_oid :: object_id
  t_transaction_id :: string
  t_user_id :: string
  t_fund_id :: int
  t_transaction_type :: TransactionType
  t_amount :: int
  t_balance_before :: int
  t_balance_after :: int
  t_status :: string

record db =
  funds :: "fund_doc list"
  users :: "user_doc list"
  user_subscriptions :: "subscription_doc list"
  transactions :: "transaction_doc list"

subsection \<open>Requests, responses and errors\<close>

record token_data =
  user_id :: string

record subscription_request =
  sr_fund_id :: int
  sr_amount :: int

record cancellation_request =
  cr_fund_id :: int

record transaction_response =
  r_id :: string
  r_fund_name :: string
  r_transaction_type :: TransactionType
  r_amount :: int
  r_balance_after :: int
  r_status :: string

record active_subscription =
  a_fund_id :: int
  a_fund_name :: string
  a_amount :: int

record user_balance_response =
  b_user_id :: string
  b_balance :: int
  b_active_subscriptions :: "active_subscription list"
  b_total_invested :: int

datatype detail =
    FondoNoEncontrado int
  | MontoMinimo int
  | IdUsuarioInvalido
  | UsuarioNoEncontrado
  | SinSaldoDisponible string
  | YaTieneSuscripcion string
  | NoTieneSuscripcion string
  | ErrorProcesandoSuscripcion
  | ErrorProcesandoCancelacion
  | ErrorObteniendoBalance

datatype http_exception = HTTPException nat detail

datatype driver_error = DuplicateKeyError

datatype db_call =
    FindFund | FindSubscription | FindUser | StartSession
  | InsertTransaction | UpdateBalance | InsertSubscription | DeleteSubscription
  | CommitTransaction

record env =
  uuid4 :: string
  transaction_oid :: object_id
  subscription_oid :: object_id
  raises :: "db_call option"

subsection \<open>The driver\<close>

text \<open>
  \<^verbatim>\<open>ObjectId(s)\<close> on a string: twenty-four hexadecimal digits, read as a 96-bit
  number; anything else raises \<^verbatim>\<open>InvalidId\<close> (here \<open>None\<close>).
\<close>

definition hex_digit :: "char \<Rightarrow> nat option" where
  "hex_digit c =
     (let n = (of_char c :: nat) in
      if 48 \<le> n \<and> n \<le> 57 then Some (n - 48)
      else if 97 \<le> n \<and> n \<le> 102 then Some (n - 87)
      else if 65 \<le> n \<and> n \<le> 70 then Some (n - 55)
      else None)"

fun hex_value :: "nat \<Rightarrow> string \<Rightarrow> nat option" where
  "hex_value acc [] = Some acc"
| "hex_value acc (c # cs) =
     (case hex_digit c of None \<Rightarrow> None | Some d \<Rightarrow> hex_value (16 * acc + d) cs)"

definition ObjectId :: "string \<Rightarrow> object_id option" where
  "ObjectId s = (if length s = 24 then hex_value 0 s else None)"

text \<open>
  \<^verbatim>\<open>insert_one\<close>: the document is appended unless a unique index refuses it. Every
  collection has the unique index on \<^verbatim>\<open>_id\<close>; \<^verbatim>\<open>user_subscriptions\<close> also has
  the one \<^verbatim>\<open>_create_indexes\<close> declares on \<^verbatim>\<open>(user_id, fund_id)\<close>, which does not
  look at \<^verbatim>\<open>is_active\<close>.
\<close>

definition insert_one_transaction ::
  "transaction_doc \<Rightarrow> transaction_doc list \<Rightarrow> driver_error + transaction_doc list" where
  "insert_one_transaction d ts =
     (if list_ex (\<lambda>t. t_oid t = t_oid d) ts then Inl DuplicateKeyError else Inr (ts @ [d]))"

definition same_key :: "subscription_doc \<Rightarrow> subscription_doc \<Rightarrow> bool" where
  "same_key d s = (s_user_id s = s_user_id d \<and> s_fund_id s = s_fund_id d)"

definition insert_one_subscription ::
  "subscription_doc \<Rightarrow> subscription_doc list \<Rightarrow> driver_error + subscription_doc list" where
  "insert_one_subscription d ss =
     (if list_ex (\<lambda>s. s_oid s = s_oid d) ss then Inl DuplicateKeyError
      else if list_ex (same_key d) ss then Inl DuplicateKeyError
      else Inr (ss @ [d]))"

text \<open>
  \<^verbatim>\<open>update_one({"_id": oid}, {"$set": {"balance": b}})\<close>: the first user with that
  \<^verbatim>\<open>_id\<close> gets the balance \<open>b\<close>, whatever its balance was; with no such user nothing
  changes and nothing is raised.
\<close>

fun update_one_balance :: "object_id \<Rightarrow> int \<Rightarrow> user_doc list \<Rightarrow> user_doc list" where
  "update_one_balance oid b [] = []"
| "update_one_balance oid b (u # us) =
     (if u_oid u = oid then u\<lparr>u_balance := b\<rparr> # us
      else u # update_one_balance oid b us)"

text \<open>\<^verbatim>\<open>delete_one({"_id": oid})\<close>: the first document with that \<^verbatim>\<open>_id\<close> is removed.\<close>

fun delete_one :: "object_id \<Rightarrow> subscription_doc list \<Rightarrow> subscription_doc list" where
  "delete_one oid [] = []"
| "delete_one oid (s # ss) =
     (if s_oid s = oid then ss else s # delete_one oid ss)"

text \<open>The three filters the handlers pass to \<^verbatim>\<open>find_one\<close> and \<^verbatim>\<open>find\<close>.\<close>

definition active_fund_filter :: "int \<Rightarrow> fund_doc \<Rightarrow> bool" where
  "active_fund_filter fid f = (f_fund_id f = fid \<and> f_is_active f)"

definition fund_filter :: "int \<Rightarrow> fund_doc \<Rightarrow> bool" where
  "fund_filter fid f = (f_fund_id f = fid)"

definition active_subscription_filter :: "string \<Rightarrow> int \<Rightarrow> subscription_doc \<Rightarrow> bool" where
  "active_subscription_filter uid fid s =
     (s_user_id s = uid \<and> s_fund_id s = fid \<and> s_is_active s)"

definition user_active_filter :: "string \<Rightarrow> subscription_doc \<Rightarrow> bool" where
  "user_active_filter uid s = (s_user_id s = uid \<and> s_is_active s)"

definition user_filter :: "object_id \<Rightarrow> user_doc \<Rightarrow> bool" where
  "user_filter oid u = (u_oid u = oid)"

subsection \<open>\<^verbatim>\<open>subscribe_to_fund\<close>\<close>

text \<open>
  The read phase, in the order of the source: the active fund, the minimum amount, the
  user (a failure of \<^verbatim>\<open>ObjectId\<close> or of the user lookup is caught by the inner
  \<^verbatim>\<open>try\<close> and reported as 400), the balance, and last the active subscription. Any
  other exception reaches the outer handler and becomes the 500 of the endpoint.
\<close>

record subscribe_locals =
  sl_fund :: fund_doc
  sl_amount_decimal :: int
  sl_object_id :: object_id
  sl_user_balance_decimal :: int

definition subscribe_validate ::
  "env \<Rightarrow> db \<Rightarrow> token_data \<Rightarrow> subscription_request \<Rightarrow> http_exception + subscribe_locals" where
  "subscribe_validate e d current_user subscription =
     (if raises e = Some FindFund then Inl (HTTPException 500 ErrorProcesandoSuscripcion)
      else
       (case find (active_fund_filter (sr_fund_id subscription)) (funds d) of
          None \<Rightarrow> Inl (HTTPException 404 (FondoNoEncontrado (sr_fund_id subscription)))
        | Some fund \<Rightarrow>
            if sr_amount subscription < f_minimum_amount fund
            then Inl (HTTPException 400 (MontoMinimo (f_minimum_amount fund)))
            else
             (case ObjectId (user_id current_user) of
                None \<Rightarrow> Inl (HTTPException 400 IdUsuarioInvalido)
              | Some object_id \<Rightarrow>
                  if raises e = Some FindUser then Inl (HTTPException 400 IdUsuarioInvalido)
                  else
                   (case find (user_filter object_id) (users d) of
                      None \<Rightarrow> Inl (HTTPException 404 UsuarioNoEncontrado)
                    | Some user \<Rightarrow>
                        if u_balance user < sr_amount subscription
                        then Inl (HTTPException 400 (SinSaldoDisponible (f_name fund)))
                        else if raises e = Some FindSubscription
                        then Inl (HTTPException 500 ErrorProcesandoSuscripcion)
                        else
                         (case find (active_subscription_filter (user_id current_user)
                                       (sr_fund_id subscription)) (user_subscriptions d) of
                            Some existing_subscription \<Rightarrow>
                              Inl (HTTPException 400 (YaTieneSuscripcion (f_name fund)))
                          | None \<Rightarrow>
                              Inr \<lparr>sl_fund = fund, sl_amount_decimal = sr_amount subscription,
                                   sl_object_id = object_id,
                                   sl_user_balance_decimal = u_balance user\<rparr>)))))"

text \<open>
  The write phase: the ledger row, then the balance, then the subscription, then the
  commit of the (empty) transaction. A write that raises leaves the earlier writes in
  place. The balance written is computed from the balance read in the read phase.
\<close>

definition subscribe_transaction ::
  "env \<Rightarrow> token_data \<Rightarrow> subscription_request \<Rightarrow> subscribe_locals \<Rightarrow> transaction_doc" where
  "subscribe_transaction e current_user subscription l =
     \<lparr>t_oid = transaction_oid e, t_transaction_id = uuid4 e,
      t_user_id = user_id current_user, t_fund_id = sr_fund_id subscription,
      t_transaction_type = SUBSCRIPTION, t_amount = sl_amount_decimal l,
      t_balance_before = sl_user_balance_decimal l,
      t_balance_after = sl_user_balance_decimal l - sl_amount_decimal l,
      t_status = ''completed''\<rparr>"

definition subscription_doc_of ::
  "env \<Rightarrow> token_data \<Rightarrow> subscription_request \<Rightarrow> subscribe_locals \<Rightarrow> subscription_doc" where
  "subscription_doc_of e current_user subscription l =
     \<lparr>s_oid = subscription_oid e, s_user_id = user_id current_user,
      s_fund_id = sr_fund_id subscription, s_amount = sl_amount_decimal l,
      s_is_active = True\<rparr>"

definition subscribe_response :: "env \<Rightarrow> subscribe_locals \<Rightarrow> transaction_response" where
  "subscribe_response e l =
     \<lparr>r_id = uuid4 e, r_fund_name = f_name (sl_fund l), r_transaction_type = SUBSCRIPTION,
      r_amount = sl_amount_decimal l,
      r_balance_after = sl_user_balance_decimal l - sl_amount_decimal l,
      r_status = ''completed''\<rparr>"

definition subscribe_apply ::
  "env \<Rightarrow> token_data \<Rightarrow> subscription_request \<Rightarrow> subscribe_locals \<Rightarrow> db \<Rightarrow>
     (http_exception + transaction_response) \<times> db" where
  "subscribe_apply e current_user subscription l d =
     (let err = Inl (HTTPException 500 ErrorProcesandoSuscripcion) in
      if raises e = Some StartSession then (err, d)
      else if raises e = Some InsertTransaction then (err, d)
      else
       (case insert_one_transaction (subscribe_transaction e current_user subscription l)
               (transactions d) of
          Inl x \<Rightarrow> (err, d)
        | Inr ts \<Rightarrow>
            let d1 = d\<lparr>transactions := ts\<rparr> in
            if raises e = Some UpdateBalance then (err, d1)
            else
              let d2 = d1\<lparr>users := update_one_balance (sl_object_id l)
                            (sl_user_balance_decimal l - sl_amount_decimal l) (users d1)\<rparr> in
              if raises e = Some InsertSubscription then (err, d2)
              else
               (case insert_one_subscription
                       (subscription_doc_of e current_user subscription l)
                       (user_subscriptions d2) of
                  Inl x \<Rightarrow> (err, d2)
                | Inr ss \<Rightarrow>
                    let d3 = d2\<lparr>user_subscriptions := ss\<rparr> in
                    if raises e = Some CommitTransaction then (err, d3)
                    else (Inr (subscribe_response e l), d3))))"

definition subscribe_to_fund ::
  "env \<Rightarrow> db \<Rightarrow> token_data \<Rightarrow> subscription_request \<Rightarrow>
     (http_exception + transaction_response) \<times> db" where
  "subscribe_to_fund e d current_user subscription =
     (case subscribe_validate e d current_user subscription of
        Inl x \<Rightarrow> (Inl x, d)
      | Inr l \<Rightarrow> subscribe_apply e current_user subscription l d)"

subsection \<open>\<^verbatim>\<open>cancel_subscription\<close>\<close>

text \<open>
  The read phase: the fund (active or not), the active subscription, the user. The
  write phase: the ledger row, the balance (the balance read plus the subscription's
  amount), the deletion of the subscription document by its \<^verbatim>\<open>_id\<close>, the commit.
\<close>

record cancel_locals =
  cl_fund :: fund_doc
  cl_subscription :: subscription_doc
  cl_object_id :: object_id
  cl_user :: user_doc

definition cancel_validate ::
  "env \<Rightarrow> db \<Rightarrow> token_data \<Rightarrow> cancellation_request \<Rightarrow> http_exception + cancel_locals" where
  "cancel_validate e d current_user cancellation =
     (if raises e = Some FindFund then Inl (HTTPException 500 ErrorProcesandoCancelacion)
      else
       (case find (fund_filter (cr_fund_id cancellation)) (funds d) of
          None \<Rightarrow> Inl (HTTPException 404 (FondoNoEncontrado (cr_fund_id cancellation)))
        | Some fund \<Rightarrow>
            if raises e = Some FindSubscription
            then Inl (HTTPException 500 ErrorProcesandoCancelacion)
            else
             (case find (active_subscription_filter (user_id current_user)
                           (cr_fund_id cancellation)) (user_subscriptions d) of
                None \<Rightarrow> Inl (HTTPException 404 (NoTieneSuscripcion (f_name fund)))
              | Some subscription \<Rightarrow>
                 (case ObjectId (user_id current_user) of
                    None \<Rightarrow> Inl (HTTPException 400 IdUsuarioInvalido)
                  | Some object_id \<Rightarrow>
                      if raises e = Some FindUser
                      then Inl (HTTPException 400 IdUsuarioInvalido)
                      else
                       (case find (user_filter object_id) (users d) of
                          None \<Rightarrow> Inl (HTTPException 404 UsuarioNoEncontrado)
                        | Some user \<Rightarrow>
                            Inr \<lparr>cl_fund = fund, cl_subscription = subscription,
                                 cl_object_id = object_id, cl_user = user\<rparr>)))))"

definition cancel_transaction ::
  "env \<Rightarrow> token_data \<Rightarrow> cancellation_request \<Rightarrow> cancel_locals \<Rightarrow> transaction_doc" where
  "cancel_transaction e current_user cancellation l =
     \<lparr>t_oid = transaction_oid e, t_transaction_id = uuid4 e,
      t_user_id = user_id current_user, t_fund_id = cr_fund_id cancellation,
      t_transaction_type = CANCELLATION, t_amount = s_amount (cl_subscription l),
      t_balance_before = u_balance (cl_user l),
      t_balance_after = u_balance (cl_user l) + s_amount (cl_subscription l),
      t_status = ''completed''\<rparr>"

definition cancel_response :: "env \<Rightarrow> cancel_locals \<Rightarrow> transaction_response" where
  "cancel_response e l =
     \<lparr>r_id = uuid4 e, r_fund_name = f_name (cl_fund l), r_transaction_type = CANCELLATION,
      r_amount = s_amount (cl_subscription l),
      r_balance_after = u_balance (cl_user l) + s_amount (cl_subscription l),
      r_status = ''completed''\<rparr>"

definition cancel_apply ::
  "env \<Rightarrow> token_data \<Rightarrow> cancellation_request \<Rightarrow> cancel_locals \<Rightarrow> db \<Rightarrow>
     (http_exception + transaction_response) \<times> db" where
  "cancel_apply e current_user cancellation l d =
     (let err = Inl (HTTPException 500 ErrorProcesandoCancelacion) in
      if raises e = Some StartSession then (err, d)
      else if raises e = Some InsertTransaction then (err, d)
      else
       (case insert_one_transaction (cancel_transaction e current_user cancellation l)
               (transactions d) of
          Inl x \<Rightarrow> (err, d)
        | Inr ts \<Rightarrow>
            let d1 = d\<lparr>transactions := ts\<rparr> in
            if raises e = Some UpdateBalance then (err, d1)
            else
              let d2 = d1\<lparr>users := update_one_balance (cl_object_id l)
                            (u_balance (cl_user l) + s_amount (cl_subscription l))
                            (users d1)\<rparr> in
              if raises e = Some DeleteSubscription then (err, d2)
              else
                let d3 = d2\<lparr>user_subscriptions :=
                              delete_one (s_oid (cl_subscription l)) (user_subscriptions d2)\<rparr> in
                if raises e = Some CommitTransaction then (err, d3)
                else (Inr (cancel_response e l), d3)))"

definition cancel_subscription ::
  "env \<Rightarrow> db \<Rightarrow> token_data \<Rightarrow> cancellation_request \<Rightarrow>
     (http_exception + transaction_response) \<times> db" where
  "cancel_subscription e d current_user cancellation =
     (case cancel_validate e d current_user cancellation of
        Inl x \<Rightarrow> (Inl x, d)
      | Inr l \<Rightarrow> cancel_apply e current_user cancellation l d)"

subsection \<open>\<^verbatim>\<open>get_user_balance\<close>\<close>

definition fund_name_of :: "db \<Rightarrow> int \<Rightarrow> string" where
  "fund_name_of d fid =
     (case find (fund_filter fid) (funds d) of
        None \<Rightarrow> ''Fondo no encontrado'' | Some fund \<Rightarrow> f_name fund)"

definition total_invested :: "db \<Rightarrow> string \<Rightarrow> int" where
  "total_invested d uid =
     sum_list (map s_amount (filter (user_active_filter uid) (user_subscriptions d)))"

definition active_subscription_of :: "db \<Rightarrow> subscription_doc \<Rightarrow> active_subscription" where
  "active_subscription_of d sub =
     \<lparr>a_fund_id = s_fund_id sub, a_fund_name = fund_name_of d (s_fund_id sub),
      a_amount = s_amount sub\<rparr>"

definition get_user_balance ::
  "env \<Rightarrow> db \<Rightarrow> token_data \<Rightarrow> http_exception + user_balance_response" where
  "get_user_balance e d current_user =
     (case ObjectId (user_id current_user) of
        None \<Rightarrow> Inl (HTTPException 400 IdUsuarioInvalido)
      | Some object_id \<Rightarrow>
          if raises e = Some FindUser then Inl (HTTPException 400 IdUsuarioInvalido)
          else
           (case find (user_filter object_id) (users d) of
              None \<Rightarrow> Inl (HTTPException 404 UsuarioNoEncontrado)
            | Some user \<Rightarrow>
                if raises e = Some FindSubscription \<or> raises e = Some FindFund
                then Inl (HTTPException 500 ErrorObteniendoBalance)
                else Inr \<lparr>b_user_id = user_id current_user, b_balance = u_balance user,
                          b_active_subscriptions =
                            map (active_subscription_of d)
                              (filter (user_active_filter (user_id current_user))
                                 (user_subscriptions d)),
                          b_total_invested = total_invested d (user_id current_user)\<rparr>))"

subsection \<open>Observations and sequences of operations\<close>

text \<open>
  What the claims speak about: the balance of an account, its active subscriptions to a
  fund, the quantity that subscribe and cancel move money inside of, and a run of
  operations of one caller, each with the environment of its call.
\<close>

definition balance_of :: "db \<Rightarrow> object_id \<Rightarrow> int option" where
  "balance_of d oid = map_option u_balance (find (user_filter oid) (users d))"

definition active_subscriptions :: "db \<Rightarrow> string \<Rightarrow> int \<Rightarrow> subscription_doc list" where
  "active_subscriptions d uid fid =
     filter (active_subscription_filter uid fid) (user_subscriptions d)"

definition documents_for :: "db \<Rightarrow> string \<Rightarrow> int \<Rightarrow> subscription_doc list" where
  "documents_for d uid fid =
     filter (\<lambda>s. s_user_id s = uid \<and> s_fund_id s = fid) (user_subscriptions d)"

definition holdings :: "db \<Rightarrow> object_id \<Rightarrow> string \<Rightarrow> int option" where
  "holdings d oid uid = map_option (\<lambda>b. b + total_invested d uid) (balance_of d oid)"

datatype operation = Subscribe subscription_request | Cancel cancellation_request

fun perform ::
  "env \<Rightarrow> db \<Rightarrow> token_data \<Rightarrow> operation \<Rightarrow> (http_exception + transaction_response) \<times> db" where
  "perform e d current_user (Subscribe subscription) =
     subscribe_to_fund e d current_user subscription"
| "perform e d current_user (Cancel cancellation) =
     cancel_subscription e d current_user cancellation"

fun run :: "db \<Rightarrow> token_data \<Rightarrow> (env \<times> operation) list \<Rightarrow> db" where
  "run d current_user [] = d"
| "run d current_user ((e, x) # xs) = run (snd (perform e d current_user x)) current_user xs"

text \<open>
  The integrity the store keeps on \<^verbatim>\<open>user_subscriptions\<close> through its two unique
  indexes: the \<^verbatim>\<open>_id\<close>s are distinct, and so are the \<^verbatim>\<open>(user_id, fund_id)\<close>
  pairs.
\<close>

definition indexed :: "db \<Rightarrow> bool" where
  "indexed d =
     (distinct (map s_oid (user_subscriptions d)) \<and>
      distinct (map (\<lambda>s. (s_user_id s, s_fund_id s)) (user_subscriptions d)))"

subsection \<open>Example data\<close>

text \<open>
  The scenario of the specification: one account with 500000, a fund with minimum 75000;
  beside it a second active fund and a fund that is in the catalog but inactive.
\<close>

definition demo_user :: token_data where
  "demo_user = \<lparr>user_id = ''000000000000000000000001''\<rparr>"

definition demo_env :: env where
  "demo_env = \<lparr>uuid4 = ''uuid-1'', transaction_oid = 100, subscription_oid = 200,
                raises = None\<rparr>"

definition demo_env2 :: env where
  "demo_env2 = \<lparr>uuid4 = ''uuid-2'', transaction_oid = 101, subscription_oid = 201,
                 raises = None\<rparr>"

definition demo_funds :: "fund_doc list" where
  "demo_funds =
     [\<lparr>f_fund_id = 1, f_name = ''FPV_BTG_PACTUAL_RECAUDADORA'', f_minimum_amount = 75000,
       f_is_active = True\<rparr>,
      \<lparr>f_fund_id = 4, f_name = ''FDO-ACCIONES'', f_minimum_amount = 250000,
       f_is_active = True\<rparr>,
      \<lparr>f_fund_id = 3, f_name = ''DEUDAPRIVADA'', f_minimum_amount = 50000,
       f_is_active = False\<rparr>]"

definition demo_db :: db where
  "demo_db = \<lparr>funds = demo_funds, users = [\<lparr>u_oid = 1, u_balance = 500000\<rparr>],
               user_subscriptions = [], transactions = []\<rparr>"

definition demo_subscribed :: db where
  "demo_subscribed =
     snd (subscribe_to_fund demo_env demo_db demo_user \<lparr>sr_fund_id = 1, sr_amount = 75000\<rparr>)"

definition demo_poor :: db where
  "demo_poor =
     demo_db\<lparr>users := [\<lparr>u_oid = 1, u_balance = 50000\<rparr>],
             user_subscriptions :=
               [\<lparr>s_oid = 7, s_user_id = ''000000000000000000000001'', s_fund_id = 1,
                 s_amount = 75000, s_is_active = True\<rparr>]\<rparr>"

definition demo_locals_a :: subscribe_locals where
  "demo_locals_a = \<lparr>sl_fund = demo_funds ! 0, sl_amount_decimal = 300000, sl_object_id = 1,
                     sl_user_balance_decimal = 500000\<rparr>"

definition demo_locals_b :: subscribe_locals where
  "demo_locals_b = \<lparr>sl_fund = demo_funds ! 1, sl_amount_decimal = 300000, sl_object_id = 1,
                     sl_user_balance_decimal = 500000\<rparr>"

definition demo_after_a :: db where
  "demo_after_a =
     snd (subscribe_apply demo_env demo_user \<lparr>sr_fund_id = 1, sr_amount = 300000\<rparr>
            demo_locals_a demo_db)"

definition demo_after_b :: db where
  "demo_after_b =
     snd (subscribe_apply demo_env2 demo_user \<lparr>sr_fund_id = 4, sr_amount = 300000\<rparr>
            demo_locals_b demo_after_a)"

definition demo_env3 :: env where
  "demo_env3 = \<lparr>uuid4 = ''uuid-3'', transaction_oid = 102, subscription_oid = 202,
                 raises = None\<rparr>"

definition demo_cancelled :: db where
  "demo_cancelled =
     snd (cancel_subscription demo_env2 demo_subscribed demo_user \<lparr>cr_fund_id = 1\<rparr>)"

definition demo_stale :: db where
  "demo_stale =
     demo_db\<lparr>user_subscriptions :=
               [\<lparr>s_oid = 7, s_user_id = ''000000000000000000000001'', s_fund_id = 1,
                 s_amount = 75000, s_is_active = False\<rparr>]\<rparr>"

definition demo_env_lost :: env where
  "demo_env_lost = demo_env\<lparr>raises := Some InsertSubscription\<rparr>"

definition demo_env2_lost :: env where
  "demo_env2_lost = demo_env2\<lparr>raises := Some DeleteSubscription\<rparr>"

text \<open>
  A response of the endpoint that is its 500, and a run none of whose operations ends in
  one.
\<close>

fun server_error :: "http_exception + transaction_response \<Rightarrow> bool" where
  "server_error (Inl (HTTPException code x)) = (code = 500)"
| "server_error (Inr r) = False"

fun clean_run :: "db \<Rightarrow> token_data \<Rightarrow> (env \<times> operation) list \<Rightarrow> bool" where
  "clean_run d current_user [] = True"
| "clean_run d current_user ((e, x) # xs) =
     (if server_error (fst (perform e d current_user x)) then False
      else clean_run (snd (perform e d current_user x)) current_user xs)"

section \<open>Properties\<close>

subsection \<open>The driver's operations\<close>

lemma demo_object_id: "ObjectId (user_id demo_user) = Some 1"
  by (simp add: demo_user_def ObjectId_def hex_digit_def)

lemma find_update_one_balance:
  "find (user_filter oid) (update_one_balance oid b us) =
     map_option (\<lambda>u. u\<lparr>u_balance := b\<rparr>) (find (user_filter oid) us)"
  by (induction us) (auto simp: user_filter_def)

lemma balance_of_update:
  "balance_of (d\<lparr>users := update_one_balance oid b (users d)\<rparr>) oid =
     map_option (\<lambda>_. b) (balance_of d oid)"
  by (simp add: balance_of_def find_update_one_balance option.map_comp comp_def)

lemma map_u_oid_update: "map u_oid (update_one_balance oid b us) = map u_oid us"
  by (induction us) auto


lemma find_Some_mem: "find P xs = Some x \<Longrightarrow> x \<in> set xs \<and> P x"
  by (induction xs) (auto split: if_splits)

lemma not_list_ex_find: "\<not> list_ex P xs \<Longrightarrow> find P xs = None"
  by (induction xs) auto

text \<open>
  The quantity \<open>holdings\<close> is what the balance report shows as balance plus total
  invested.
\<close>

lemma get_user_balance_holdings:
  assumes "get_user_balance e d u = Inr resp" and "ObjectId (user_id u) = Some oid"
  shows "holdings d oid (user_id u) = Some (b_balance resp + b_total_invested resp)"
  using assms unfolding get_user_balance_def holdings_def balance_of_def
  by (auto split: if_splits option.splits)

subsection \<open>What a handler that got through its read phase has read\<close>

lemma subscribe_validate_InrD:
  assumes "subscribe_validate e d u s = Inr l"
  shows "\<exists>fund oid user.
           find (active_fund_filter (sr_fund_id s)) (funds d) = Some fund \<and>
           \<not> sr_amount s < f_minimum_amount fund \<and>
           ObjectId (user_id u) = Some oid \<and>
           find (user_filter oid) (users d) = Some user \<and>
           \<not> u_balance user < sr_amount s \<and>
           find (active_subscription_filter (user_id u) (sr_fund_id s))
             (user_subscriptions d) = None \<and>
           l = \<lparr>sl_fund = fund, sl_amount_decimal = sr_amount s, sl_object_id = oid,
                sl_user_balance_decimal = u_balance user\<rparr>"
  using assms unfolding subscribe_validate_def
  by (auto split: if_splits option.splits)

lemma subscribe_apply_InrD:
  assumes "subscribe_apply e u s l d = (Inr r, d')"
  shows "r = subscribe_response e l \<and>
         insert_one_subscription (subscription_doc_of e u s l) (user_subscriptions d)
           = Inr (user_subscriptions d @ [subscription_doc_of e u s l]) \<and>
         d' = d\<lparr>transactions := transactions d @ [subscribe_transaction e u s l],
                users := update_one_balance (sl_object_id l)
                           (sl_user_balance_decimal l - sl_amount_decimal l) (users d),
                user_subscriptions := user_subscriptions d @ [subscription_doc_of e u s l]\<rparr>"
  using assms unfolding subscribe_apply_def insert_one_transaction_def insert_one_subscription_def
  by (auto simp: Let_def split: if_splits)

lemma subscribe_to_fund_InrD:
  assumes "subscribe_to_fund e d u s = (Inr r, d')"
  shows "\<exists>l. subscribe_validate e d u s = Inr l \<and> subscribe_apply e u s l d = (Inr r, d')"
  using assms unfolding subscribe_to_fund_def by (auto split: sum.splits)

subsection \<open>A successful subscribe\<close>



subsection \<open>The order of the checks of subscribe\<close>

text \<open>
  Claim C7, as the code has it. \<open>subscribe_to_fund\<close> compares the balance with the
  amount before it looks for an active subscription. So whenever the fund is found
  active, the amount reaches the minimum and the account's balance is below the amount,
  the call fails with the 400 error "No tiene saldo disponible ..." and changes nothing,
  whether or not the caller already holds an active subscription to the fund.
\<close>

theorem subscribe_balance_checked_first:
  assumes "raises e = None"
      and "find (active_fund_filter (sr_fund_id s)) (funds d) = Some fund"
      and "f_minimum_amount fund \<le> sr_amount s"
      and "ObjectId (user_id u) = Some oid"
      and "balance_of d oid = Some b"
      and "b < sr_amount s"
  shows "subscribe_to_fund e d u s =
           (Inl (HTTPException 400 (SinSaldoDisponible (f_name fund))), d)"
  using assms
  by (auto simp: subscribe_to_fund_def subscribe_validate_def balance_of_def)

theorem subscribe_balance_checked_first_witness:
  "length (active_subscriptions demo_poor (user_id demo_user) 1) = 1 \<and>
   balance_of demo_poor 1 = Some 50000 \<and>
   subscribe_to_fund demo_env demo_poor demo_user \<lparr>sr_fund_id = 1, sr_amount = 75000\<rparr> =
     (Inl (HTTPException 400 (SinSaldoDisponible ''FPV_BTG_PACTUAL_RECAUDADORA'')), demo_poor)"
proof -
  have h1: "raises demo_env = None" by (simp add: demo_env_def)
  have h2: "find (active_fund_filter (sr_fund_id \<lparr>sr_fund_id = 1, sr_amount = 75000\<rparr>))
              (funds demo_poor) = Some (hd demo_funds)"
    by code_simp
  have h3: "f_minimum_amount (hd demo_funds) \<le> sr_amount \<lparr>sr_fund_id = 1, sr_amount = 75000\<rparr>"
    by code_simp
  have h5: "balance_of demo_poor 1 = Some 50000" by code_simp
  have h6: "(50000::int) < sr_amount \<lparr>sr_fund_id = 1, sr_amount = 75000\<rparr>" by simp
  have n: "f_name (hd demo_funds) = ''FPV_BTG_PACTUAL_RECAUDADORA''" by code_simp
  have a: "length (active_subscriptions demo_poor (user_id demo_user) 1) = 1" by code_simp
  from subscribe_balance_checked_first [OF h1 h2 h3 demo_object_id h5 h6] n a h5
  show ?thesis by simp
qed

text \<open>
  The claim as the specification words it fails: an account with balance 50000 that
  already holds an active subscription to fund 1 asks for 75000 more of fund 1, and is
  told that the balance is insufficient, not that the subscription is a duplicate.
\<close>

theorem duplicate_before_balance_counterexample:
  "active_subscriptions demo_poor (user_id demo_user) 1 \<noteq> [] \<and>
   balance_of demo_poor 1 = Some 50000 \<and>
   fst (subscribe_to_fund demo_env demo_poor demo_user \<lparr>sr_fund_id = 1, sr_amount = 75000\<rparr>) =
     Inl (HTTPException 400 (SinSaldoDisponible ''FPV_BTG_PACTUAL_RECAUDADORA'')) \<and>
   fst (subscribe_to_fund demo_env demo_poor demo_user \<lparr>sr_fund_id = 1, sr_amount = 75000\<rparr>) \<noteq>
     Inl (HTTPException 400 (YaTieneSuscripcion ''FPV_BTG_PACTUAL_RECAUDADORA''))"
  by code_simp

subsection \<open>A fund that is in the catalog but inactive\<close>

text \<open>
  Claim C9, as the code has it. The fund lookup of \<open>subscribe_to_fund\<close> filters on
  \<open>is_active\<close>, so a fund that is in the catalog with its active flag off is not found:
  whenever no active document carries the requested fund id (the fund is inactive, or
  absent), the call fails with the 404 error "Fondo con ID ... no encontrado" and
  changes nothing. There is no separate error for an inactive fund.
\<close>

theorem subscribe_inactive_fund_not_found:
  assumes "raises e \<noteq> Some FindFund"
      and "\<not> list_ex (active_fund_filter (sr_fund_id s)) (funds d)"
  shows "subscribe_to_fund e d u s =
           (Inl (HTTPException 404 (FondoNoEncontrado (sr_fund_id s))), d)"
  using assms
  by (simp add: subscribe_to_fund_def subscribe_validate_def not_list_ex_find)

theorem subscribe_inactive_fund_not_found_witness:
  "raises demo_env \<noteq> Some FindFund \<and>
   list_ex (fund_filter 3) (funds demo_db) \<and>
   \<not> list_ex (active_fund_filter 3) (funds demo_db) \<and>
   subscribe_to_fund demo_env demo_db demo_user \<lparr>sr_fund_id = 3, sr_amount = 50000\<rparr> =
     (Inl (HTTPException 404 (FondoNoEncontrado 3)), demo_db)"
proof -
  have h1: "raises demo_env \<noteq> Some FindFund" by (simp add: demo_env_def)
  have h2: "\<not> list_ex (active_fund_filter (sr_fund_id \<lparr>sr_fund_id = 3, sr_amount = 50000\<rparr>))
              (funds demo_db)"
    by (simp add: demo_db_def demo_funds_def active_fund_filter_def)
  have h3: "list_ex (fund_filter 3) (funds demo_db)"
    by (simp add: demo_db_def demo_funds_def fund_filter_def)
  from subscribe_inactive_fund_not_found [OF h1 h2, of demo_user] h1 h2 h3
  show ?thesis by simp
qed

text \<open>
  The claim as the specification words it fails: fund 3 is in the catalog, inactive, and
  a subscribe to it gets the very error that a subscribe to a fund absent from the
  catalog gets.
\<close>

theorem inactive_fund_error_counterexample:
  "list_ex (fund_filter 3) (funds demo_db) \<and>
   fst (subscribe_to_fund demo_env demo_db demo_user \<lparr>sr_fund_id = 3, sr_amount = 50000\<rparr>) =
     Inl (HTTPException 404 (FondoNoEncontrado 3)) \<and>
   list_ex (fund_filter 3) (funds (demo_db\<lparr>funds := []\<rparr>)) = False \<and>
   fst (subscribe_to_fund demo_env (demo_db\<lparr>funds := []\<rparr>) demo_user
          \<lparr>sr_fund_id = 3, sr_amount = 50000\<rparr>) =
     Inl (HTTPException 404 (FondoNoEncontrado 3))"
  by code_simp

subsection \<open>The write phase of subscribe when nothing raises\<close>

lemma find_append_list:
  "find P (xs @ ys) = (case find P xs of None \<Rightarrow> find P ys | Some x \<Rightarrow> Some x)"
  by (induction xs) auto

lemma documents_for_none_active:
  "documents_for d uid fid = [] \<Longrightarrow>
   find (active_subscription_filter uid fid) (user_subscriptions d) = None"
  by (auto simp: documents_for_def active_subscription_filter_def find_None_iff filter_empty_conv)

lemma subscribe_apply_succeeds:
  assumes "raises e = None"
      and "\<not> list_ex (\<lambda>t. t_oid t = transaction_oid e) (transactions d)"
      and "\<not> list_ex (\<lambda>x. s_oid x = subscription_oid e) (user_subscriptions d)"
      and "documents_for d (user_id u) (sr_fund_id s) = []"
  shows "subscribe_apply e u s l d =
           (Inr (subscribe_response e l),
            d\<lparr>transactions := transactions d @ [subscribe_transaction e u s l],
              users := update_one_balance (sl_object_id l)
                         (sl_user_balance_decimal l - sl_amount_decimal l) (users d),
              user_subscriptions := user_subscriptions d @ [subscription_doc_of e u s l]\<rparr>)"
proof -
  have k: "\<not> list_ex (same_key (subscription_doc_of e u s l)) (user_subscriptions d)"
    using assms(4)
    by (auto simp: documents_for_def same_key_def subscription_doc_of_def list_ex_iff
        filter_empty_conv)
  show ?thesis
    using assms(1-3) k
    by (simp add: subscribe_apply_def insert_one_transaction_def insert_one_subscription_def
        subscribe_transaction_def subscription_doc_of_def Let_def)
qed

subsection \<open>The minimum amount\<close>

text \<open>
  Claim C6. Take a subscribe to a fund that is found active, by a caller whose user id is
  the object id of an account with balance at least the amount, when the registry holds
  no subscription document of the caller for the fund, the driver raises nowhere, and the
  two \<open>_id\<close>s it generates are new. If the amount equals the fund's minimum amount, the
  minimum check passes and the call returns its response. If the amount is below the
  minimum amount, the call fails with the 400 error "El monto minimo para este fondo es
  ..." (the specification's BelowMinimumInvestment) and changes nothing.
\<close>

theorem subscribe_minimum_boundary:
  assumes "raises e = None"
      and "find (active_fund_filter (sr_fund_id s)) (funds d) = Some fund"
      and "ObjectId (user_id u) = Some oid"
      and "balance_of d oid = Some b"
      and "sr_amount s \<le> b"
      and "documents_for d (user_id u) (sr_fund_id s) = []"
      and "\<not> list_ex (\<lambda>t. t_oid t = transaction_oid e) (transactions d)"
      and "\<not> list_ex (\<lambda>x. s_oid x = subscription_oid e) (user_subscriptions d)"
  shows "(sr_amount s = f_minimum_amount fund \<longrightarrow>
            (\<exists>d'. subscribe_to_fund e d u s =
               (Inr \<lparr>r_id = uuid4 e, r_fund_name = f_name fund,
                     r_transaction_type = SUBSCRIPTION, r_amount = sr_amount s,
                     r_balance_after = b - sr_amount s, r_status = ''completed''\<rparr>, d'))) \<and>
         (sr_amount s < f_minimum_amount fund \<longrightarrow>
            subscribe_to_fund e d u s =
              (Inl (HTTPException 400 (MontoMinimo (f_minimum_amount fund))), d))"
proof (intro conjI impI)
  assume eq: "sr_amount s = f_minimum_amount fund"
  from assms(4) obtain user where usr: "find (user_filter oid) (users d) = Some user"
    and ub: "u_balance user = b"
    by (auto simp: balance_of_def)
  have v: "subscribe_validate e d u s =
             Inr \<lparr>sl_fund = fund, sl_amount_decimal = sr_amount s, sl_object_id = oid,
                  sl_user_balance_decimal = b\<rparr>"
    using assms(1,2,3,5) eq usr ub documents_for_none_active [OF assms(6)]
    by (simp add: subscribe_validate_def)
  show "\<exists>d'. subscribe_to_fund e d u s =
               (Inr \<lparr>r_id = uuid4 e, r_fund_name = f_name fund,
                     r_transaction_type = SUBSCRIPTION, r_amount = sr_amount s,
                     r_balance_after = b - sr_amount s, r_status = ''completed''\<rparr>, d')"
    by (simp add: subscribe_to_fund_def v
        subscribe_apply_succeeds [OF assms(1) assms(7) assms(8) assms(6)] subscribe_response_def)
next
  assume "sr_amount s < f_minimum_amount fund"
  then show "subscribe_to_fund e d u s =
              (Inl (HTTPException 400 (MontoMinimo (f_minimum_amount fund))), d)"
    using assms(1,2) by (simp add: subscribe_to_fund_def subscribe_validate_def)
qed

theorem subscribe_minimum_boundary_witness:
  "f_minimum_amount (hd demo_funds) = 75000 \<and>
   fst (subscribe_to_fund demo_env demo_db demo_user \<lparr>sr_fund_id = 1, sr_amount = 75000\<rparr>) =
     Inr \<lparr>r_id = ''uuid-1'', r_fund_name = ''FPV_BTG_PACTUAL_RECAUDADORA'',
          r_transaction_type = SUBSCRIPTION, r_amount = 75000, r_balance_after = 425000,
          r_status = ''completed''\<rparr> \<and>
   subscribe_to_fund demo_env demo_db demo_user \<lparr>sr_fund_id = 1, sr_amount = 74999\<rparr> =
     (Inl (HTTPException 400 (MontoMinimo 75000)), demo_db)"
proof -
  let ?at = "\<lparr>sr_fund_id = 1, sr_amount = 75000\<rparr>"
  let ?below = "\<lparr>sr_fund_id = 1, sr_amount = 74999\<rparr>"
  have h1: "raises demo_env = None" by (simp add: demo_env_def)
  have h2: "find (active_fund_filter (sr_fund_id ?at)) (funds demo_db) = Some (hd demo_funds)"
    by code_simp
  have h2': "find (active_fund_filter (sr_fund_id ?below)) (funds demo_db) = Some (hd demo_funds)"
    by code_simp
  have h4: "balance_of demo_db 1 = Some 500000" by code_simp
  have h5: "sr_amount ?at \<le> 500000" by simp
  have h5': "sr_amount ?below \<le> 500000" by simp
  have h6: "documents_for demo_db (user_id demo_user) (sr_fund_id ?at) = []" by code_simp
  have h6': "documents_for demo_db (user_id demo_user) (sr_fund_id ?below) = []" by code_simp
  have h7: "\<not> list_ex (\<lambda>t. t_oid t = transaction_oid demo_env) (transactions demo_db)"
    by (simp add: demo_db_def)
  have h8: "\<not> list_ex (\<lambda>x. s_oid x = subscription_oid demo_env) (user_subscriptions demo_db)"
    by (simp add: demo_db_def)
  have m: "f_minimum_amount (hd demo_funds) = 75000" by code_simp
  have n: "f_name (hd demo_funds) = ''FPV_BTG_PACTUAL_RECAUDADORA''" by code_simp
  have u: "uuid4 demo_env = ''uuid-1''" by (simp add: demo_env_def)
  from subscribe_minimum_boundary [OF h1 h2 demo_object_id h4 h5 h6 h7 h8]
    subscribe_minimum_boundary [OF h1 h2' demo_object_id h4 h5' h6' h7 h8] m n u
  show ?thesis by auto
qed

subsection \<open>Resubmitting a subscribe\<close>

text \<open>
  Claim C8, as the code has it. A subscription request carries a fund id and an amount
  and nothing else: there is no idempotency key, and every call draws a new transaction
  id. What protects a retry is the registry and the balance: whenever a subscribe has
  returned its response, the same request submitted again on the resulting database (the
  driver raising nowhere) is rejected with a 400 error and changes nothing, so there is
  no second debit. The error is the duplicate-subscription one, unless the balance left
  by the first call is below the amount, in which case it is the insufficient-balance
  one. The original response is in neither case returned again.
\<close>

theorem resubmitted_subscribe_rejected:
  assumes "subscribe_to_fund e d u s = (Inr r, d')"
      and "raises e' = None"
  shows "subscribe_to_fund e' d' u s =
           (Inl (HTTPException 400
                  (if r_balance_after r < sr_amount s
                   then SinSaldoDisponible (r_fund_name r)
                   else YaTieneSuscripcion (r_fund_name r))), d')"
proof -
  from subscribe_to_fund_InrD [OF assms(1)] obtain l where
    v: "subscribe_validate e d u s = Inr l" and a: "subscribe_apply e u s l d = (Inr r, d')"
    by blast
  from subscribe_validate_InrD [OF v] obtain fund oid user where
    fnd: "find (active_fund_filter (sr_fund_id s)) (funds d) = Some fund" and
    mn: "\<not> sr_amount s < f_minimum_amount fund" and
    oid: "ObjectId (user_id u) = Some oid" and
    usr: "find (user_filter oid) (users d) = Some user" and
    nosub: "find (active_subscription_filter (user_id u) (sr_fund_id s))
              (user_subscriptions d) = None" and
    l: "l = \<lparr>sl_fund = fund, sl_amount_decimal = sr_amount s, sl_object_id = oid,
             sl_user_balance_decimal = u_balance user\<rparr>"
    by blast
  from subscribe_apply_InrD [OF a] have r: "r = subscribe_response e l" and
    d': "d' = d\<lparr>transactions := transactions d @ [subscribe_transaction e u s l],
                users := update_one_balance (sl_object_id l)
                           (sl_user_balance_decimal l - sl_amount_decimal l) (users d),
                user_subscriptions := user_subscriptions d @ [subscription_doc_of e u s l]\<rparr>"
    by blast+
  have f': "find (active_fund_filter (sr_fund_id s)) (funds d') = Some fund"
    by (simp add: d' fnd)
  have u': "find (user_filter oid) (users d') =
              Some (user\<lparr>u_balance := u_balance user - sr_amount s\<rparr>)"
    by (simp add: d' l find_update_one_balance usr)
  have s': "find (active_subscription_filter (user_id u) (sr_fund_id s))
              (user_subscriptions d') = Some (subscription_doc_of e u s l)"
    by (simp add: d' find_append_list nosub subscription_doc_of_def
        active_subscription_filter_def)
  show ?thesis
    using assms(2) mn oid
    by (simp add: subscribe_to_fund_def subscribe_validate_def f' u' s' r l
        subscribe_response_def)
qed

theorem resubmitted_subscribe_rejected_witness:
  "fst (subscribe_to_fund demo_env demo_db demo_user \<lparr>sr_fund_id = 1, sr_amount = 75000\<rparr>) =
     Inr \<lparr>r_id = ''uuid-1'', r_fund_name = ''FPV_BTG_PACTUAL_RECAUDADORA'',
          r_transaction_type = SUBSCRIPTION, r_amount = 75000, r_balance_after = 425000,
          r_status = ''completed''\<rparr> \<and>
   subscribe_to_fund demo_env2 demo_subscribed demo_user \<lparr>sr_fund_id = 1, sr_amount = 75000\<rparr> =
     (Inl (HTTPException 400 (YaTieneSuscripcion ''FPV_BTG_PACTUAL_RECAUDADORA'')),
      demo_subscribed) \<and>
   balance_of demo_subscribed 1 = Some 425000"
proof -
  have run: "subscribe_to_fund demo_env demo_db demo_user \<lparr>sr_fund_id = 1, sr_amount = 75000\<rparr>
     = (Inr \<lparr>r_id = ''uuid-1'', r_fund_name = ''FPV_BTG_PACTUAL_RECAUDADORA'',
             r_transaction_type = SUBSCRIPTION, r_amount = 75000, r_balance_after = 425000,
             r_status = ''completed''\<rparr>, demo_subscribed)"
    by code_simp
  have h: "raises demo_env2 = None" by (simp add: demo_env2_def)
  have b: "balance_of demo_subscribed 1 = Some 425000" by code_simp
  from resubmitted_subscribe_rejected [OF run h] b show ?thesis
    using run by simp
qed

text \<open>
  The claim as the specification words it fails: the first call returns its response and
  leaves \<open>demo_subscribed\<close>; the same request again, even with the same generated
  values, gets the duplicate-subscription error instead of that response.
\<close>

theorem idempotent_retry_counterexample:
  "fst (subscribe_to_fund demo_env demo_db demo_user \<lparr>sr_fund_id = 1, sr_amount = 75000\<rparr>) =
     Inr \<lparr>r_id = ''uuid-1'', r_fund_name = ''FPV_BTG_PACTUAL_RECAUDADORA'',
          r_transaction_type = SUBSCRIPTION, r_amount = 75000, r_balance_after = 425000,
          r_status = ''completed''\<rparr> \<and>
   snd (subscribe_to_fund demo_env demo_db demo_user \<lparr>sr_fund_id = 1, sr_amount = 75000\<rparr>) =
     demo_subscribed \<and>
   fst (subscribe_to_fund demo_env demo_subscribed demo_user
          \<lparr>sr_fund_id = 1, sr_amount = 75000\<rparr>) =
     Inl (HTTPException 400 (YaTieneSuscripcion ''FPV_BTG_PACTUAL_RECAUDADORA''))"
  by code_simp

subsection \<open>The balance write of subscribe\<close>

text \<open>
  Claim C5, as the code has it. The balance write of subscribe is an unconditional
  \<open>$set\<close>: it does not compare the account's current balance with the balance read
  during validation, and no conflict error exists. Take the local variables of any read
  phase that passed, and any database in which the account exists, the caller has no
  subscription document for the fund, and the generated \<open>_id\<close>s are new: if the driver
  raises nowhere, the write phase succeeds whatever the account's balance now is, and
  leaves the balance at the balance read minus the amount. That value is never negative,
  because the read phase has checked that the balance read is at least the amount.
\<close>

theorem subscribe_write_unconditional:
  assumes "subscribe_validate e d0 u s = Inr l"
      and "raises e = None"
      and "\<not> list_ex (\<lambda>t. t_oid t = transaction_oid e) (transactions d)"
      and "\<not> list_ex (\<lambda>x. s_oid x = subscription_oid e) (user_subscriptions d)"
      and "documents_for d (user_id u) (sr_fund_id s) = []"
      and "balance_of d (sl_object_id l) = Some b"
  shows "\<exists>d'. subscribe_apply e u s l d = (Inr (subscribe_response e l), d') \<and>
              balance_of d' (sl_object_id l) = Some (sl_user_balance_decimal l - sr_amount s) \<and>
              0 \<le> sl_user_balance_decimal l - sr_amount s"
proof -
  from subscribe_validate_InrD [OF assms(1)] obtain fund oid and user :: user_doc where
    bal: "\<not> u_balance user < sr_amount s" and
    l: "l = \<lparr>sl_fund = fund, sl_amount_decimal = sr_amount s, sl_object_id = oid,
             sl_user_balance_decimal = u_balance user\<rparr>"
    by blast
  have nn: "0 \<le> sl_user_balance_decimal l - sr_amount s"
    using bal by (simp add: l)
  show ?thesis
    using nn assms(6)
    by (auto simp: subscribe_apply_succeeds [OF assms(2) assms(3) assms(4) assms(5)]
        balance_of_def find_update_one_balance l)
qed

theorem subscribe_write_unconditional_witness:
  "subscribe_validate demo_env2 demo_db demo_user \<lparr>sr_fund_id = 4, sr_amount = 300000\<rparr> =
     Inr demo_locals_b \<and>
   sl_user_balance_decimal demo_locals_b = 500000 \<and>
   balance_of demo_after_a 1 = Some 200000 \<and>
   fst (subscribe_apply demo_env2 demo_user \<lparr>sr_fund_id = 4, sr_amount = 300000\<rparr>
          demo_locals_b demo_after_a) = Inr (subscribe_response demo_env2 demo_locals_b) \<and>
   balance_of demo_after_b 1 = Some 200000"
proof -
  let ?s = "\<lparr>sr_fund_id = 4, sr_amount = 300000\<rparr>"
  have h1: "subscribe_validate demo_env2 demo_db demo_user ?s = Inr demo_locals_b"
    by code_simp
  have h2: "raises demo_env2 = None" by (simp add: demo_env2_def)
  have h3: "\<not> list_ex (\<lambda>t. t_oid t = transaction_oid demo_env2) (transactions demo_after_a)"
    by code_simp
  have h4: "\<not> list_ex (\<lambda>x. s_oid x = subscription_oid demo_env2)
                (user_subscriptions demo_after_a)"
    by code_simp
  have h5: "documents_for demo_after_a (user_id demo_user) (sr_fund_id ?s) = []"
    by code_simp
  have h6: "balance_of demo_after_a (sl_object_id demo_locals_b) = Some 200000"
    by code_simp
  have o: "sl_object_id demo_locals_b = 1" by (simp add: demo_locals_b_def)
  have k: "sl_user_balance_decimal demo_locals_b = 500000" by (simp add: demo_locals_b_def)
  have b: "balance_of demo_after_b 1 = Some 200000" by code_simp
  from subscribe_write_unconditional [OF h1 h2 h3 h4 h5 h6] h1 h6 o k b
  show ?thesis by auto
qed

text \<open>
  The claim as the specification words it fails. Two subscribes of 300000 each, to funds
  1 and 4, both pass their read phase on the same database, where the balance is 500000.
  The first write phase leaves the balance at 200000. The second write phase then runs
  with the balance it read, 500000, which is no longer the account's balance: it is not
  refused, it writes 200000 again, and the account ends with 600000 invested out of
  500000.
\<close>

theorem compare_and_set_counterexample:
  "subscribe_validate demo_env demo_db demo_user \<lparr>sr_fund_id = 1, sr_amount = 300000\<rparr> =
     Inr demo_locals_a \<and>
   subscribe_validate demo_env2 demo_db demo_user \<lparr>sr_fund_id = 4, sr_amount = 300000\<rparr> =
     Inr demo_locals_b \<and>
   balance_of demo_db 1 = Some 500000 \<and>
   subscribe_apply demo_env demo_user \<lparr>sr_fund_id = 1, sr_amount = 300000\<rparr>
       demo_locals_a demo_db =
     (Inr (subscribe_response demo_env demo_locals_a), demo_after_a) \<and>
   balance_of demo_after_a 1 = Some 200000 \<and>
   subscribe_apply demo_env2 demo_user \<lparr>sr_fund_id = 4, sr_amount = 300000\<rparr>
       demo_locals_b demo_after_a =
     (Inr (subscribe_response demo_env2 demo_locals_b), demo_after_b) \<and>
   balance_of demo_after_b 1 = Some 200000 \<and>
   total_invested demo_after_b (user_id demo_user) = 600000"
  by code_simp

subsection \<open>Deleting from the registry\<close>

lemma delete_one_remove1:
  "distinct (map s_oid ss) \<Longrightarrow> x \<in> set ss \<Longrightarrow> delete_one (s_oid x) ss = remove1 x ss"
proof (induction ss)
  case Nil
  then show ?case by simp
next
  case (Cons a ss)
  show ?case
  proof (cases "s_oid a = s_oid x")
    case True
    with Cons.prems have "x = a" by (auto simp: image_iff)
    then show ?thesis by simp
  next
    case False
    with Cons show ?thesis by auto
  qed
qed

lemma filter_key_remove1:
  assumes "distinct (map k ss)" and "x \<in> set ss"
  shows "filter (\<lambda>s. k s = k x) (remove1 x ss) = []"
proof -
  have d: "distinct ss" and inj: "inj_on k (set ss)"
    using assms(1) by (simp_all add: distinct_map)
  have "\<And>y. y \<in> set (remove1 x ss) \<Longrightarrow> k y \<noteq> k x"
  proof
    fix y assume y: "y \<in> set (remove1 x ss)" and e: "k y = k x"
    from y d have "y \<in> set ss" "y \<noteq> x" by auto
    with inj e assms(2) show False by (auto dest: inj_onD)
  qed
  then show ?thesis by (auto simp: filter_empty_conv)
qed


lemma cancel_validate_InrD:
  assumes "cancel_validate e d u c = Inr l"
  shows "\<exists>fund sub oid user.
           find (fund_filter (cr_fund_id c)) (funds d) = Some fund \<and>
           find (active_subscription_filter (user_id u) (cr_fund_id c))
             (user_subscriptions d) = Some sub \<and>
           ObjectId (user_id u) = Some oid \<and>
           find (user_filter oid) (users d) = Some user \<and>
           l = \<lparr>cl_fund = fund, cl_subscription = sub, cl_object_id = oid, cl_user = user\<rparr>"
  using assms unfolding cancel_validate_def
  by (auto split: if_splits option.splits)

lemma cancel_apply_InrD:
  assumes "cancel_apply e u c l d = (Inr r, d')"
  shows "r = cancel_response e l \<and>
         d' = d\<lparr>transactions := transactions d @ [cancel_transaction e u c l],
                users := update_one_balance (cl_object_id l)
                           (u_balance (cl_user l) + s_amount (cl_subscription l)) (users d),
                user_subscriptions :=
                  delete_one (s_oid (cl_subscription l)) (user_subscriptions d)\<rparr>"
  using assms unfolding cancel_apply_def insert_one_transaction_def
  by (auto simp: Let_def split: if_splits)

lemma cancel_subscription_InrD:
  assumes "cancel_subscription e d u c = (Inr r, d')"
  shows "\<exists>l. cancel_validate e d u c = Inr l \<and> cancel_apply e u c l d = (Inr r, d')"
  using assms unfolding cancel_subscription_def by (auto split: sum.splits)

lemma cancel_success_state:
  assumes "cancel_subscription e d u c = (Inr r, d')" and "indexed d"
  shows "\<exists>fund sub oid user.
           find (fund_filter (cr_fund_id c)) (funds d) = Some fund \<and>
           find (active_subscription_filter (user_id u) (cr_fund_id c))
             (user_subscriptions d) = Some sub \<and>
           ObjectId (user_id u) = Some oid \<and>
           find (user_filter oid) (users d) = Some user \<and>
           r = cancel_response e
                 \<lparr>cl_fund = fund, cl_subscription = sub, cl_object_id = oid, cl_user = user\<rparr> \<and>
           transactions d' = transactions d @
             [cancel_transaction e u c
                \<lparr>cl_fund = fund, cl_subscription = sub, cl_object_id = oid, cl_user = user\<rparr>] \<and>
           users d' = update_one_balance oid (u_balance user + s_amount sub) (users d) \<and>
           user_subscriptions d' = remove1 sub (user_subscriptions d) \<and>
           funds d' = funds d"
proof -
  from cancel_subscription_InrD [OF assms(1)] obtain l where
    v: "cancel_validate e d u c = Inr l" and a: "cancel_apply e u c l d = (Inr r, d')"
    by blast
  from cancel_validate_InrD [OF v] obtain fund sub oid user where
    f: "find (fund_filter (cr_fund_id c)) (funds d) = Some fund" and
    s: "find (active_subscription_filter (user_id u) (cr_fund_id c))
             (user_subscriptions d) = Some sub" and
    o: "ObjectId (user_id u) = Some oid" and
    us: "find (user_filter oid) (users d) = Some user" and
    l: "l = \<lparr>cl_fund = fund, cl_subscription = sub, cl_object_id = oid, cl_user = user\<rparr>"
    by blast
  from find_Some_mem [OF s] have mem: "sub \<in> set (user_subscriptions d)" by simp
  from assms(2) have dist: "distinct (map s_oid (user_subscriptions d))"
    by (simp add: indexed_def)
  note del = delete_one_remove1 [OF dist mem]
  from cancel_apply_InrD [OF a] show ?thesis
    using f s o us by (simp add: l del)
qed

subsection \<open>A successful cancel\<close>



subsection \<open>Cancel removes the document\<close>

text \<open>
  Claim C10. After every cancel that returns a response, on a registry that satisfies
  its unique indexes, the registry holds no document at all for the caller and the fund:
  the document was deleted, the registry is one document shorter, and the lookup of an
  active subscription finds nothing. A later subscribe of the caller to the same fund
  that passes its read phase (the driver raising nowhere, the generated \<open>_id\<close>s new)
  therefore returns its response: its insert meets no document with the same
  \<open>(user_id, fund_id)\<close>, and afterwards the registry holds exactly the new document
  for the pair.
\<close>

theorem cancel_deletes_document:
  assumes "cancel_subscription e d u c = (Inr r, d')"
      and "indexed d"
  shows "documents_for d' (user_id u) (cr_fund_id c) = [] \<and>
         find (active_subscription_filter (user_id u) (cr_fund_id c))
           (user_subscriptions d') = None \<and>
         length (user_subscriptions d') + 1 = length (user_subscriptions d) \<and>
         (\<forall>e' s l.
            raises e' = None \<and>
            \<not> list_ex (\<lambda>t. t_oid t = transaction_oid e') (transactions d') \<and>
            \<not> list_ex (\<lambda>x. s_oid x = subscription_oid e') (user_subscriptions d') \<and>
            sr_fund_id s = cr_fund_id c \<and>
            subscribe_validate e' d' u s = Inr l \<longrightarrow>
            (\<exists>d''. subscribe_to_fund e' d' u s = (Inr (subscribe_response e' l), d'') \<and>
                   documents_for d'' (user_id u) (cr_fund_id c) =
                     [subscription_doc_of e' u s l]))"
proof -
  from cancel_success_state [OF assms] obtain sub where
    s: "find (active_subscription_filter (user_id u) (cr_fund_id c))
             (user_subscriptions d) = Some sub" and
    sd: "user_subscriptions d' = remove1 sub (user_subscriptions d)"
    by blast
  let ?k = "\<lambda>s. (s_user_id s, s_fund_id s)"
  from find_Some_mem [OF s] have mem: "sub \<in> set (user_subscriptions d)" and
    act: "active_subscription_filter (user_id u) (cr_fund_id c) sub" by simp_all
  from assms(2) have dk: "distinct (map ?k (user_subscriptions d))"
    by (simp add: indexed_def)
  have key: "?k sub = (user_id u, cr_fund_id c)"
    using act by (simp add: active_subscription_filter_def)
  have "filter (\<lambda>s. ?k s = ?k sub) (remove1 sub (user_subscriptions d)) = []"
    by (rule filter_key_remove1 [where k = "?k" and x = sub, OF dk mem])
  then have none: "documents_for d' (user_id u) (cr_fund_id c) = []"
    using key by (auto simp: documents_for_def sd filter_empty_conv)
  have len: "length (user_subscriptions d') + 1 = length (user_subscriptions d)"
  proof -
    from mem have "0 < length (user_subscriptions d)" by (rule length_pos_if_in_set)
    then show ?thesis by (simp add: sd length_remove1 mem)
  qed
  have later: "\<exists>d''. subscribe_to_fund e' d' u s = (Inr (subscribe_response e' l), d'') \<and>
                   documents_for d'' (user_id u) (cr_fund_id c) =
                     [subscription_doc_of e' u s l]"
    if h: "raises e' = None"
      "\<not> list_ex (\<lambda>t. t_oid t = transaction_oid e') (transactions d')"
      "\<not> list_ex (\<lambda>x. s_oid x = subscription_oid e') (user_subscriptions d')"
      "sr_fund_id s = cr_fund_id c"
      "subscribe_validate e' d' u s = Inr l" for e' s l
  proof -
    have n: "documents_for d' (user_id u) (sr_fund_id s) = []"
      using none h(4) by simp
    have n': "filter (\<lambda>x. s_user_id x = user_id u \<and> s_fund_id x = cr_fund_id c)
                (user_subscriptions d') = []"
      using none by (simp add: documents_for_def)
    show ?thesis
      using h(4) n'
      by (simp add: subscribe_to_fund_def h(5) subscribe_apply_succeeds [OF h(1) h(2) h(3) n]
          documents_for_def subscription_doc_of_def)
  qed
  show ?thesis
    using none len later documents_for_none_active [OF none] by blast
qed

theorem cancel_deletes_document_witness:
  "indexed demo_subscribed \<and>
   length (user_subscriptions demo_subscribed) = 1 \<and>
   fst (cancel_subscription demo_env2 demo_subscribed demo_user \<lparr>cr_fund_id = 1\<rparr>) =
     Inr \<lparr>r_id = ''uuid-2'', r_fund_name = ''FPV_BTG_PACTUAL_RECAUDADORA'',
          r_transaction_type = CANCELLATION, r_amount = 75000, r_balance_after = 500000,
          r_status = ''completed''\<rparr> \<and>
   documents_for demo_cancelled (user_id demo_user) 1 = [] \<and>
   user_subscriptions demo_cancelled = [] \<and>
   fst (subscribe_to_fund demo_env3 demo_cancelled demo_user
          \<lparr>sr_fund_id = 1, sr_amount = 75000\<rparr>) =
     Inr \<lparr>r_id = ''uuid-3'', r_fund_name = ''FPV_BTG_PACTUAL_RECAUDADORA'',
          r_transaction_type = SUBSCRIPTION, r_amount = 75000, r_balance_after = 425000,
          r_status = ''completed''\<rparr>"
proof -
  let ?s = "\<lparr>sr_fund_id = 1, sr_amount = 75000\<rparr>"
  let ?l = "\<lparr>sl_fund = hd demo_funds, sl_amount_decimal = 75000, sl_object_id = 1,
             sl_user_balance_decimal = 500000\<rparr>"
  have run: "cancel_subscription demo_env2 demo_subscribed demo_user \<lparr>cr_fund_id = 1\<rparr> =
     (Inr \<lparr>r_id = ''uuid-2'', r_fund_name = ''FPV_BTG_PACTUAL_RECAUDADORA'',
           r_transaction_type = CANCELLATION, r_amount = 75000, r_balance_after = 500000,
           r_status = ''completed''\<rparr>, demo_cancelled)"
    by code_simp
  have idx: "indexed demo_subscribed" by code_simp
  have len: "length (user_subscriptions demo_subscribed) = 1" by code_simp
  have h1: "raises demo_env3 = None" by (simp add: demo_env3_def)
  have h2: "\<not> list_ex (\<lambda>t. t_oid t = transaction_oid demo_env3) (transactions demo_cancelled)"
    by code_simp
  have h3: "\<not> list_ex (\<lambda>x. s_oid x = subscription_oid demo_env3)
                (user_subscriptions demo_cancelled)"
    by code_simp
  have h4: "sr_fund_id ?s = cr_fund_id \<lparr>cr_fund_id = 1\<rparr>" by simp
  have h5: "subscribe_validate demo_env3 demo_cancelled demo_user ?s = Inr ?l" by code_simp
  have resp: "subscribe_response demo_env3 ?l =
      \<lparr>r_id = ''uuid-3'', r_fund_name = ''FPV_BTG_PACTUAL_RECAUDADORA'',
          r_transaction_type = SUBSCRIPTION, r_amount = 75000, r_balance_after = 425000,
          r_status = ''completed''\<rparr>"
    by code_simp
  note inst = cancel_deletes_document [OF run idx]
  from inst have d0: "documents_for demo_cancelled (user_id demo_user) 1 = []" by simp
  from inst len have e0: "user_subscriptions demo_cancelled = []" by simp
  from inst h1 h2 h3 h4 h5 have
    "\<exists>d''. subscribe_to_fund demo_env3 demo_cancelled demo_user ?s =
            (Inr (subscribe_response demo_env3 ?l), d'')"
    by blast
  then have "fst (subscribe_to_fund demo_env3 demo_cancelled demo_user ?s) =
               Inr (subscribe_response demo_env3 ?l)"
    by auto
  with resp d0 e0 idx len run show ?thesis by simp
qed

subsection \<open>Conservation on runs without a server error\<close>

text \<open>
  An error other than the 500 comes from the read phase and leaves the database as it
  was. On a registry that satisfies its unique indexes, an operation that does not end
  in the 500 leaves the account's balance plus its active subscriptions unchanged, and
  so does every run of such operations.
\<close>

lemma subscribe_apply_InlD:
  "subscribe_apply e u s l d = (Inl x, d') \<Longrightarrow> x = HTTPException 500 ErrorProcesandoSuscripcion"
  unfolding subscribe_apply_def
  by (auto simp: Let_def split: if_splits sum.splits)

lemma cancel_apply_InlD:
  "cancel_apply e u c l d = (Inl x, d') \<Longrightarrow> x = HTTPException 500 ErrorProcesandoCancelacion"
  unfolding cancel_apply_def
  by (auto simp: Let_def split: if_splits sum.splits)

lemma perform_refused_unchanged:
  assumes "perform e d u x = (Inl err, d')" and "\<not> server_error (Inl err)"
  shows "d' = d"
proof (cases x)
  case (Subscribe s)
  show ?thesis
  proof (cases "subscribe_validate e d u s")
    case (Inl a)
    with assms(1) Subscribe show ?thesis by (simp add: subscribe_to_fund_def)
  next
    case (Inr l)
    with assms(1) Subscribe have "subscribe_apply e u s l d = (Inl err, d')"
      by (simp add: subscribe_to_fund_def)
    from subscribe_apply_InlD [OF this] assms(2) show ?thesis by simp
  qed
next
  case (Cancel c)
  show ?thesis
  proof (cases "cancel_validate e d u c")
    case (Inl a)
    with assms(1) Cancel show ?thesis by (simp add: cancel_subscription_def)
  next
    case (Inr l)
    with assms(1) Cancel have "cancel_apply e u c l d = (Inl err, d')"
      by (simp add: cancel_subscription_def)
    from cancel_apply_InlD [OF this] assms(2) show ?thesis by simp
  qed
qed

lemma sum_amount_remove1:
  "x \<in> set ss \<Longrightarrow> P x \<Longrightarrow>
   sum_list (map s_amount (filter P (remove1 x ss))) =
     sum_list (map s_amount (filter P ss)) - s_amount x"
  by (induction ss) auto

lemma subscribe_conserves:
  assumes "subscribe_to_fund e d u s = (Inr r, d')"
      and "ObjectId (user_id u) = Some oid"
  shows "holdings d' oid (user_id u) = holdings d oid (user_id u)"
proof -
  from subscribe_to_fund_InrD [OF assms(1)] obtain l where
    v: "subscribe_validate e d u s = Inr l" and a: "subscribe_apply e u s l d = (Inr r, d')"
    by blast
  from subscribe_validate_InrD [OF v] assms(2) obtain fund user where
    usr: "find (user_filter oid) (users d) = Some user" and
    l: "l = \<lparr>sl_fund = fund, sl_amount_decimal = sr_amount s, sl_object_id = oid,
             sl_user_balance_decimal = u_balance user\<rparr>"
    by auto
  from subscribe_apply_InrD [OF a] have
    d': "d' = d\<lparr>transactions := transactions d @ [subscribe_transaction e u s l],
                users := update_one_balance (sl_object_id l)
                           (sl_user_balance_decimal l - sl_amount_decimal l) (users d),
                user_subscriptions := user_subscriptions d @ [subscription_doc_of e u s l]\<rparr>"
    by blast
  have t: "total_invested d' (user_id u) = total_invested d (user_id u) + sr_amount s"
    by (simp add: d' l total_invested_def user_active_filter_def subscription_doc_of_def)
  have b: "balance_of d' oid = Some (u_balance user - sr_amount s)"
    by (simp add: d' l balance_of_def find_update_one_balance usr)
  have b0: "balance_of d oid = Some (u_balance user)"
    by (simp add: balance_of_def usr)
  show ?thesis by (simp add: holdings_def t b b0)
qed

lemma cancel_conserves:
  assumes "cancel_subscription e d u c = (Inr r, d')"
      and "indexed d"
      and "ObjectId (user_id u) = Some oid"
  shows "holdings d' oid (user_id u) = holdings d oid (user_id u)"
proof -
  from cancel_success_state [OF assms(1,2)] assms(3) obtain sub user where
    s: "find (active_subscription_filter (user_id u) (cr_fund_id c))
             (user_subscriptions d) = Some sub" and
    us: "find (user_filter oid) (users d) = Some user" and
    ud: "users d' = update_one_balance oid (u_balance user + s_amount sub) (users d)" and
    sd: "user_subscriptions d' = remove1 sub (user_subscriptions d)"
    by auto
  from find_Some_mem [OF s] have mem: "sub \<in> set (user_subscriptions d)" and
    act: "user_active_filter (user_id u) sub"
    by (simp_all add: active_subscription_filter_def user_active_filter_def)
  have t: "total_invested d' (user_id u) = total_invested d (user_id u) - s_amount sub"
    by (simp add: total_invested_def sd
        sum_amount_remove1 [where P = "user_active_filter (user_id u)", OF mem act])
  have b: "balance_of d' oid = Some (u_balance user + s_amount sub)"
    by (simp add: balance_of_def ud find_update_one_balance us)
  have b0: "balance_of d oid = Some (u_balance user)"
    by (simp add: balance_of_def us)
  show ?thesis by (simp add: holdings_def t b b0)
qed

lemma perform_conserves:
  assumes "indexed d" and "ObjectId (user_id u) = Some oid"
      and "\<not> server_error (fst (perform e d u x))"
  shows "holdings (snd (perform e d u x)) oid (user_id u) = holdings d oid (user_id u)"
proof (cases "perform e d u x")
  case (Pair res d')
  show ?thesis
  proof (cases res)
    case (Inl err)
    with Pair assms(3) have "d' = d" by (auto intro: perform_refused_unchanged)
    with Pair show ?thesis by simp
  next
    case (Inr r)
    show ?thesis
    proof (cases x)
      case (Subscribe s)
      with Pair Inr have "subscribe_to_fund e d u s = (Inr r, d')" by simp
      from subscribe_conserves [OF this assms(2)] Pair show ?thesis by simp
    next
      case (Cancel c)
      with Pair Inr have "cancel_subscription e d u c = (Inr r, d')" by simp
      from cancel_conserves [OF this assms(1,2)] Pair show ?thesis by simp
    qed
  qed
qed

lemma set_delete_one: "set (delete_one oid ss) \<subseteq> set ss"
  by (induction ss) auto

lemma distinct_map_delete_one:
  "distinct (map f ss) \<Longrightarrow> distinct (map f (delete_one oid ss))"
proof (induction ss)
  case Nil
  then show ?case by simp
next
  case (Cons a ss)
  then show ?case using set_delete_one [of oid ss] by auto
qed

lemma subscribe_apply_indexed:
  assumes "indexed d"
  shows "indexed (snd (subscribe_apply e u s l d))"
  using assms unfolding subscribe_apply_def insert_one_subscription_def
  by (auto simp: Let_def indexed_def map_u_oid_update list_ex_iff same_key_def
      split: if_splits sum.splits)

lemma cancel_apply_indexed:
  assumes "indexed d"
  shows "indexed (snd (cancel_apply e u c l d))"
  using assms unfolding cancel_apply_def
  by (auto simp: Let_def indexed_def map_u_oid_update distinct_map_delete_one
      split: if_splits sum.splits)

lemma perform_indexed:
  assumes "indexed d"
  shows "indexed (snd (perform e d u x))"
proof (cases x)
  case (Subscribe s)
  then show ?thesis
    using assms subscribe_apply_indexed [OF assms]
    by (simp add: subscribe_to_fund_def split: sum.splits)
next
  case (Cancel c)
  then show ?thesis
    using assms cancel_apply_indexed [OF assms]
    by (simp add: cancel_subscription_def split: sum.splits)
qed

lemma clean_run_conserves:
  assumes "ObjectId (user_id u) = Some oid"
  shows "indexed d \<Longrightarrow> clean_run d u xs \<Longrightarrow>
         holdings (run d u xs) oid (user_id u) = holdings d oid (user_id u)"
proof (induction xs arbitrary: d)
  case Nil
  then show ?case by simp
next
  case (Cons a xs)
  obtain e x where a: "a = (e, x)" by (cases a)
  from Cons.prems(2) a have ok: "\<not> server_error (fst (perform e d u x))"
    and rest: "clean_run (snd (perform e d u x)) u xs"
    by (simp_all split: if_splits)
  have "holdings (run (snd (perform e d u x)) u xs) oid (user_id u) =
          holdings (snd (perform e d u x)) oid (user_id u)"
    by (rule Cons.IH [OF perform_indexed [OF Cons.prems(1)] rest])
  also have "\<dots> = holdings d oid (user_id u)"
    by (rule perform_conserves [OF Cons.prems(1) assms ok])
  finally show ?case by (simp add: a)
qed

subsection \<open>An operation that fails between its writes\<close>

text \<open>
  Claim C3 at its failing inputs. The handlers open a session and a transaction and
  commit it, but pass the session to none of their three writes, so a failure after the
  first write undoes nothing. Three runs of one operation each, all ending in the 500:
  a subscribe of 75000 during which the driver raises at the insert of the subscription;
  the same subscribe, with no failure of the driver, on a registry that holds an inactive
  document of the caller for the fund, which the unique index on \<open>(user_id, fund_id)\<close>
  makes the insert refuse; and a cancel during which the driver raises at the deletion.
  The balance plus the active subscriptions of the account is 500000 before each run; it
  is 425000 after the first two and 575000 after the third.
\<close>

theorem failed_subscribe_breaks_conservation:
  "holdings demo_db 1 (user_id demo_user) = Some 500000 \<and>
   fst (perform demo_env_lost demo_db demo_user
          (Subscribe \<lparr>sr_fund_id = 1, sr_amount = 75000\<rparr>)) =
     Inl (HTTPException 500 ErrorProcesandoSuscripcion) \<and>
   holdings (run demo_db demo_user
               [(demo_env_lost, Subscribe \<lparr>sr_fund_id = 1, sr_amount = 75000\<rparr>)])
     1 (user_id demo_user) = Some 425000 \<and>
   holdings demo_stale 1 (user_id demo_user) = Some 500000 \<and>
   fst (perform demo_env demo_stale demo_user
          (Subscribe \<lparr>sr_fund_id = 1, sr_amount = 75000\<rparr>)) =
     Inl (HTTPException 500 ErrorProcesandoSuscripcion) \<and>
   holdings (run demo_stale demo_user
               [(demo_env, Subscribe \<lparr>sr_fund_id = 1, sr_amount = 75000\<rparr>)])
     1 (user_id demo_user) = Some 425000 \<and>
   holdings demo_subscribed 1 (user_id demo_user) = Some 500000 \<and>
   fst (perform demo_env2_lost demo_subscribed demo_user (Cancel \<lparr>cr_fund_id = 1\<rparr>)) =
     Inl (HTTPException 500 ErrorProcesandoCancelacion) \<and>
   holdings (run demo_subscribed demo_user [(demo_env2_lost, Cancel \<lparr>cr_fund_id = 1\<rparr>)])
     1 (user_id demo_user) = Some 575000"
  by code_simp

text \<open>
  Claim C4 at the same failing inputs. Each of the three operations returns the 500 and
  leaves the stores changed: after the failed subscribes the ledger has the new row and
  the balance is debited to 425000 while the registry has no active subscription of the
  caller for the fund; after the failed cancel the ledger has the new row and the balance
  is credited to 500000 while the subscription is still active.
\<close>

theorem failed_operation_half_applied:
  "subscribe_to_fund demo_env_lost demo_db demo_user \<lparr>sr_fund_id = 1, sr_amount = 75000\<rparr> =
     (Inl (HTTPException 500 ErrorProcesandoSuscripcion),
      demo_db\<lparr>users := [\<lparr>u_oid = 1, u_balance = 425000\<rparr>],
              transactions :=
                [\<lparr>t_oid = 100, t_transaction_id = ''uuid-1'',
                  t_user_id = ''000000000000000000000001'', t_fund_id = 1,
                  t_transaction_type = SUBSCRIPTION, t_amount = 75000,
                  t_balance_before = 500000, t_balance_after = 425000,
                  t_status = ''completed''\<rparr>]\<rparr>) \<and>
   user_subscriptions demo_db = [] \<and>
   subscribe_to_fund demo_env demo_stale demo_user \<lparr>sr_fund_id = 1, sr_amount = 75000\<rparr> =
     (Inl (HTTPException 500 ErrorProcesandoSuscripcion),
      demo_stale\<lparr>users := [\<lparr>u_oid = 1, u_balance = 425000\<rparr>],
                 transactions :=
                   [\<lparr>t_oid = 100, t_transaction_id = ''uuid-1'',
                     t_user_id = ''000000000000000000000001'', t_fund_id = 1,
                     t_transaction_type = SUBSCRIPTION, t_amount = 75000,
                     t_balance_before = 500000, t_balance_after = 425000,
                     t_status = ''completed''\<rparr>]\<rparr>) \<and>
   active_subscriptions demo_stale (user_id demo_user) 1 = [] \<and>
   cancel_subscription demo_env2_lost demo_subscribed demo_user \<lparr>cr_fund_id = 1\<rparr> =
     (Inl (HTTPException 500 ErrorProcesandoCancelacion),
      demo_subscribed\<lparr>users := [\<lparr>u_oid = 1, u_balance = 500000\<rparr>],
                      transactions := transactions demo_subscribed @
                        [\<lparr>t_oid = 101, t_transaction_id = ''uuid-2'',
                          t_user_id = ''000000000000000000000001'', t_fund_id = 1,
                          t_transaction_type = CANCELLATION, t_amount = 75000,
                          t_balance_before = 425000, t_balance_after = 500000,
                          t_status = ''completed''\<rparr>]\<rparr>) \<and>
   length (active_subscriptions demo_subscribed (user_id demo_user) 1) = 1"
  by code_simp

end
